theory Spec2Isabelle
  imports Complex_Main
begin

section \<open>JavaScript numbers\<close>

text \<open>
  The sources compute with JavaScript numbers. A number is modelled as \<open>NaN\<close>, one of the
  two infinities, or a finite value. Finite values are exact rationals: rounding to a
  double and the sign of zero are not modelled. The operations below are the ones the
  sources use: \<open>+\<close>, \<open>-\<close>, \<open><\<close>, \<open>>\<close>, \<open>>=\<close>, \<open>Math.max\<close>, \<open>isNaN\<close> and
  truthiness (for \<open>x || 0\<close>).
\<close>

datatype jsnum = NaN | NegInfinity | Finite rat | PosInfinity

fun js_lt :: "jsnum \<Rightarrow> jsnum \<Rightarrow> bool" where
  "js_lt NaN b = False"
| "js_lt NegInfinity b = (case b of Finite y \<Rightarrow> True | PosInfinity \<Rightarrow> True | _ \<Rightarrow> False)"
| "js_lt (Finite x) b = (case b of Finite y \<Rightarrow> x < y | PosInfinity \<Rightarrow> True | _ \<Rightarrow> False)"
| "js_lt PosInfinity b = False"

definition js_gt :: "jsnum \<Rightarrow> jsnum \<Rightarrow> bool" where
  "js_gt a b = js_lt b a"







definition truthy_num :: "jsnum \<Rightarrow> bool" where
  "truthy_num a = (a \<noteq> NaN \<and> a \<noteq> Finite 0)"

section \<open>The banner's derived state (gift-banner.js)\<close>




section \<open>The discount function (cart\_lines\_discounts\_generate\_run.ts)\<close>

text \<open>
  The input and result types come from the generated API module, which is not part of the
  sources; they are modelled from the fields the function reads and writes. A cart line
  carries its id and the attribute looked up under the key \<open>_is_gift\<close> (absent, or with an
  optional value).
\<close>

datatype DiscountClass = ClassOrder | ClassProduct | ClassShipping

datatype ProductDiscountSelectionStrategy = StrategyAll | StrategyFirst | StrategyMaximum

record Attribute =
  attr_value :: "string option"

record InputCartLine =
  line_id :: string
  isGift :: "Attribute option"

record CartInput =
  cart_lines :: "InputCartLine list"
  discountClasses :: "DiscountClass list"

record Candidate =
  message :: string
  targets :: "string list"
  percentage :: rat

record ProductDiscountsAdd =
  candidates :: "Candidate list"
  selectionStrategy :: ProductDiscountSelectionStrategy

record CartLinesDiscountsGenerateRunResult =
  operations :: "ProductDiscountsAdd list"

text \<open>The predicate of the source's \<open>filter\<close>: \<open>line.isGift?.value === 'true'\<close>.\<close>

definition giftFlagged :: "InputCartLine \<Rightarrow> bool" where
  "giftFlagged line = (case isGift line of None \<Rightarrow> False | Some a \<Rightarrow> attr_value a = Some ''true'')"

definition giftCandidate :: "InputCartLine \<Rightarrow> Candidate" where
  "giftCandidate line =
     \<lparr>message = ''Free gift item'', targets = [line_id line], percentage = 100\<rparr>"

definition cartLinesDiscountsGenerateRun :: "CartInput \<Rightarrow> CartLinesDiscountsGenerateRunResult" where
  "cartLinesDiscountsGenerateRun input =
     (if length (cart_lines input) = 0 then \<lparr>operations = []\<rparr>
      else if ClassProduct \<notin> set (discountClasses input) then \<lparr>operations = []\<rparr>
      else let giftLines = filter giftFlagged (cart_lines input)
           in if length giftLines = 0 then \<lparr>operations = []\<rparr>
              else \<lparr>operations =
                     [\<lparr>candidates = map giftCandidate giftLines,
                       selectionStrategy = StrategyFirst\<rparr>]\<rparr>)"

section \<open>Values shared by the server code\<close>










text \<open>
  \<open>x || d\<close> on an optional string takes \<open>d\<close> when \<open>x\<close> is missing or empty; on a number
  it takes \<open>d\<close> when \<open>x\<close> is missing, zero or \<open>NaN\<close>.
\<close>

definition or_str :: "string option \<Rightarrow> string \<Rightarrow> string" where
  "or_str x d = (case x of None \<Rightarrow> d | Some s \<Rightarrow> if s = [] then d else s)"

definition or_num :: "jsnum option \<Rightarrow> jsnum \<Rightarrow> jsnum" where
  "or_num x d = (case x of None \<Rightarrow> d | Some n \<Rightarrow> if truthy_num n then n else d)"

section \<open>The gift rule form (giftRule.server)\<close>


section \<open>Cart reconciliation (applyGift.server.ts)\<close>

subsection \<open>Data\<close>

text \<open>
  The interfaces of the source, every optional field an \<open>option\<close>. Chains of optional
  objects the code only reads through (\<open>cost?.totalAmount?.amount\<close>, \<open>merchandise?.id\<close>,
  \<open>lines?.edges\<close>, a metafield's \<open>?.value\<close>) are one optional field each. The JSON of a
  response joins the fields the code reads off the different answers: \<open>errors\<close>,
  \<open>data.cart\<close>, \<open>data.currentAppInstallation\<close>, and the keys of \<open>data\<close> with their
  \<open>userErrors\<close>.
\<close>

record LineAttribute =
  attribute_key :: "string option"
  attribute_value :: "string option"

record CartLineNode =
  node_id :: "string option"
  quantity :: "jsnum option"
  cost_totalAmount_amount :: "string option"
  merchandise_id :: "string option"
  attributes :: "LineAttribute list option"

type_synonym CartLines = "CartLineNode option list option"

record CartData =
  cart_id :: "string option"
  lines :: CartLines

record GraphQLError =
  error_message :: "string option"

record UserError =
  user_field :: "string list option"
  user_message :: "string option"

record AppInstallation =
  gift_variant_id :: "string option"
  min_cart_subtotal :: "string option"
  enable_rule :: "string option"

record Json =
  errors :: "GraphQLError list option"
  data_cart :: "CartData option"
  data_currentAppInstallation :: "AppInstallation option"
  data_mutations :: "(string \<times> UserError list option) list"





text \<open>\<open>{success: false, reason}\<close> or \<open>{success: true, ...}\<close>.\<close>

datatype 'a Outcome = Failure string | Success 'a

subsection \<open>Remote calls\<close>








definition GIFT_ATTRIBUTE_KEY :: string where
  "GIFT_ATTRIBUTE_KEY = ''_is_gift''"

definition GIFT_ATTRIBUTE_VALUE :: string where
  "GIFT_ATTRIBUTE_VALUE = ''true''"

subsection \<open>Functions\<close>


definition isGiftItem :: "CartLineNode option \<Rightarrow> bool" where
  "isGiftItem node =
     (case node of
        None \<Rightarrow> False
      | Some n \<Rightarrow>
          (let attributes = (case attributes n of None \<Rightarrow> [] | Some as \<Rightarrow> as)
           in list_ex (\<lambda>attr. attribute_key attr = Some GIFT_ATTRIBUTE_KEY \<and>
                               attribute_value attr = Some GIFT_ATTRIBUTE_VALUE) attributes))"

definition edgesOf :: "CartLines \<Rightarrow> CartLineNode option list" where
  "edgesOf cartLines = (case cartLines of None \<Rightarrow> [] | Some edges \<Rightarrow> edges)"



definition findGiftLine :: "CartLines \<Rightarrow> CartLineNode option" where
  "findGiftLine cartLines =
     (case find isGiftItem (edgesOf cartLines) of None \<Rightarrow> None | Some node \<Rightarrow> node)"



fun userErrorsLoop :: "(string \<times> UserError list option) list \<Rightarrow> string \<Rightarrow> unit Outcome" where
  "userErrorsLoop [] operation = Success ()"
| "userErrorsLoop ((key, userErrors) # mutationKeys) operation =
     (case userErrors of
        Some (u # us) \<Rightarrow> Failure (or_str (user_message u) (''Failed to '' @ operation))
      | _ \<Rightarrow> userErrorsLoop mutationKeys operation)"

definition handleGraphQLErrors :: "Json \<Rightarrow> string \<Rightarrow> unit Outcome" where
  "handleGraphQLErrors response operation =
     (case errors response of
        Some (e # es) \<Rightarrow> Failure (or_str (error_message e) (''Failed to '' @ operation))
      | _ \<Rightarrow> userErrorsLoop (data_mutations response) operation)"










section \<open>The HTTP action (POST /apps/embedded/app/gift/apply)\<close>

text \<open>
  The request as the action reads it: the \<open>shop\<close> query parameter, and the outcome of
  \<open>request.json()\<close>, which throws or yields \<open>null\<close>, a value that is no object, or an
  object with its \<open>cartId\<close> property. The module \<open>app/shopify.server\<close> and the validation
  library are not part of the sources: \<open>unauthenticated\<close> is a pair of functions that
  throw or yield an API that may be missing, and the texts that only the runtime and the
  validation library determine are fields of \<open>Runtime\<close>.
\<close>

datatype JsField = FieldMissing | FieldString string | FieldOther

datatype RequestBody = BodyNull | BodyNonObject | BodyObject JsField








section \<open>A reference platform\<close>

text \<open>
  The platform behind the Admin and Storefront APIs is an external service. For the claims
  about the cart a reconciliation leaves behind, it is modelled as the spec describes it:
  it stores the rule's metafields and, per cart id, the cart's lines; the cart query
  returns the stored lines, \<open>cartLinesRemove\<close> deletes the lines with the given ids,
  the quantity update sets the quantity of the line with the given id (a quantity of zero
  deletes it), and \<open>cartLinesAdd\<close> appends a line with a fresh id. It answers every
  request without GraphQL errors, and with a user error only for a cart it does not hold.
  The amount it reports for a line is a function \<open>pricing\<close> of that line.
\<close>

record PlatformLine =
  pl_id :: string
  pl_quantity :: nat
  pl_merchandise :: string
  pl_attributes :: "(string \<times> string) list"

record Platform =
  installation :: "AppInstallation option"
  carts :: "string \<Rightarrow> PlatformLine list option"
  pricing :: "PlatformLine \<Rightarrow> string"

definition platformNode :: "Platform \<Rightarrow> PlatformLine \<Rightarrow> CartLineNode" where
  "platformNode p l =
     \<lparr>node_id = Some (pl_id l),
      quantity = Some (Finite (of_nat (pl_quantity l))),
      cost_totalAmount_amount = Some (pricing p l),
      merchandise_id = Some (pl_merchandise l),
      attributes = Some (map (\<lambda>(k, v). \<lparr>attribute_key = Some k, attribute_value = Some v\<rparr>)
                          (pl_attributes l))\<rparr>"


definition emptyJson :: Json where
  "emptyJson = \<lparr>errors = None, data_cart = None, data_currentAppInstallation = None,
                data_mutations = []\<rparr>"


definition freshId :: "PlatformLine list \<Rightarrow> string" where
  "freshId ls = replicate (Suc (foldr (\<lambda>l n. max (length (pl_id l)) n) ls 0)) (CHR ''g'')"













section \<open>Error replies\<close>













section \<open>Example states\<close>











section \<open>Properties\<close>

subsection \<open>Running the code against the reference platform\<close>








lemma handleGraphQLErrors_ok [simp]:
  "handleGraphQLErrors (emptyJson\<lparr>data_mutations := [(name, Some [])]\<rparr>) operation = Success ()"
  by (simp add: handleGraphQLErrors_def emptyJson_def)








lemma js_gt_quantity [simp]:
  "js_gt (or_num (Some (Finite (of_nat q))) (Finite 0)) (Finite 1) = (1 < q)"
  by (cases "q = 0") (simp_all add: js_gt_def or_num_def truthy_num_def)













lemma find_no_gift:
  assumes "filter P ls = []"
  shows "find (\<lambda>l. P l \<and> Q l) ls = None"
  using assms by (auto simp: find_None_iff filter_empty_conv)



lemma freshId_nonempty [simp]: "freshId ls \<noteq> []"
  by (simp add: freshId_def)











lemma cost_platformNode [simp]:
  "cost_totalAmount_amount (platformNode p l) = Some (pricing p l)"
  by (simp add: platformNode_def)





subsection \<open>Error replies stop a run\<close>




























subsection \<open>The claims\<close>




text \<open>
  Claim C5. The discount function returns no operation when the cart has no line, when the
  Product discount class is not active, or when no line has the \<open>isGift\<close> value
  \<open>"true"\<close>. Otherwise, with \<open>k \<ge> 1\<close> flagged lines, it returns exactly one operation
  with selection strategy First and exactly \<open>k\<close> candidates, the \<open>i\<close>-th of them at
  100 percent and targeting exactly the \<open>i\<close>-th flagged line by its id.
\<close>

theorem cartLinesDiscountsGenerateRun_correct:
  "(\<forall>l. giftFlagged l = (\<exists>a. isGift l = Some a \<and> attr_value a = Some ''true'')) \<and>
   (cart_lines input = [] \<or> ClassProduct \<notin> set (discountClasses input) \<or>
    (\<forall>l \<in> set (cart_lines input). \<not> giftFlagged l)
      \<longrightarrow> cartLinesDiscountsGenerateRun input = \<lparr>operations = []\<rparr>) \<and>
   (cart_lines input \<noteq> [] \<and> ClassProduct \<in> set (discountClasses input) \<and>
    (\<exists>l \<in> set (cart_lines input). giftFlagged l)
      \<longrightarrow> (\<exists>op. operations (cartLinesDiscountsGenerateRun input) = [op] \<and>
             selectionStrategy op = StrategyFirst \<and>
             length (candidates op) = length (filter giftFlagged (cart_lines input)) \<and>
             1 \<le> length (candidates op) \<and>
             (\<forall>c \<in> set (candidates op). percentage c = 100 \<and>
                (\<exists>l \<in> set (cart_lines input). giftFlagged l \<and> targets c = [line_id l])) \<and>
             map targets (candidates op)
               = map (\<lambda>l. [line_id l]) (filter giftFlagged (cart_lines input))))"
proof (intro conjI allI impI)
  fix l show "giftFlagged l = (\<exists>a. isGift l = Some a \<and> attr_value a = Some ''true'')"
    by (simp add: giftFlagged_def split: option.splits)
next
  assume "cart_lines input = [] \<or> ClassProduct \<notin> set (discountClasses input) \<or>
          (\<forall>l \<in> set (cart_lines input). \<not> giftFlagged l)"
  then show "cartLinesDiscountsGenerateRun input = \<lparr>operations = []\<rparr>"
    by (auto simp: cartLinesDiscountsGenerateRun_def Let_def filter_empty_conv)
next
  assume a: "cart_lines input \<noteq> [] \<and> ClassProduct \<in> set (discountClasses input) \<and>
             (\<exists>l \<in> set (cart_lines input). giftFlagged l)"
  let ?gs = "filter giftFlagged (cart_lines input)"
  let ?op = "\<lparr>candidates = map giftCandidate ?gs, selectionStrategy = StrategyFirst\<rparr>"
  from a have ne: "?gs \<noteq> []" by (auto simp: filter_empty_conv)
  with a have run: "operations (cartLinesDiscountsGenerateRun input) = [?op]"
    by (simp add: cartLinesDiscountsGenerateRun_def Let_def)
  have len: "1 \<le> length ?gs" using ne by (cases ?gs) simp_all
  have each: "\<forall>c \<in> set (candidates ?op). percentage c = 100 \<and>
                (\<exists>l \<in> set (cart_lines input). giftFlagged l \<and> targets c = [line_id l])"
    by (auto simp: giftCandidate_def)
  have tg: "map targets (candidates ?op) = map (\<lambda>l. [line_id l]) ?gs"
    by (simp add: giftCandidate_def comp_def)
  show "\<exists>op. operations (cartLinesDiscountsGenerateRun input) = [op] \<and>
             selectionStrategy op = StrategyFirst \<and>
             length (candidates op) = length (filter giftFlagged (cart_lines input)) \<and>
             1 \<le> length (candidates op) \<and>
             (\<forall>c \<in> set (candidates op). percentage c = 100 \<and>
                (\<exists>l \<in> set (cart_lines input). giftFlagged l \<and> targets c = [line_id l])) \<and>
             map targets (candidates op)
               = map (\<lambda>l. [line_id l]) (filter giftFlagged (cart_lines input))"
    using run len each tg by (intro exI [of _ ?op]) simp
qed

theorem cartLinesDiscountsGenerateRun_correct_witness:
  "cartLinesDiscountsGenerateRun
     \<lparr>cart_lines = [\<lparr>line_id = ''L1'', isGift = None\<rparr>,
                    \<lparr>line_id = ''L2'', isGift = Some \<lparr>attr_value = Some ''true''\<rparr>\<rparr>,
                    \<lparr>line_id = ''L3'', isGift = Some \<lparr>attr_value = Some ''false''\<rparr>\<rparr>,
                    \<lparr>line_id = ''L4'', isGift = Some \<lparr>attr_value = Some ''true''\<rparr>\<rparr>],
      discountClasses = [ClassOrder, ClassProduct]\<rparr>
   = \<lparr>operations =
       [\<lparr>candidates = [\<lparr>message = ''Free gift item'', targets = [''L2''], percentage = 100\<rparr>,
                        \<lparr>message = ''Free gift item'', targets = [''L4''], percentage = 100\<rparr>],
         selectionStrategy = StrategyFirst\<rparr>]\<rparr> \<and>
   cartLinesDiscountsGenerateRun
     \<lparr>cart_lines = [\<lparr>line_id = ''L2'', isGift = Some \<lparr>attr_value = Some ''true''\<rparr>\<rparr>],
      discountClasses = [ClassOrder]\<rparr>
   = \<lparr>operations = []\<rparr>"
proof -
  let ?i = "\<lparr>cart_lines = [\<lparr>line_id = ''L1'', isGift = None\<rparr>,
                    \<lparr>line_id = ''L2'', isGift = Some \<lparr>attr_value = Some ''true''\<rparr>\<rparr>,
                    \<lparr>line_id = ''L3'', isGift = Some \<lparr>attr_value = Some ''false''\<rparr>\<rparr>,
                    \<lparr>line_id = ''L4'', isGift = Some \<lparr>attr_value = Some ''true''\<rparr>\<rparr>],
      discountClasses = [ClassOrder, ClassProduct]\<rparr>"
  let ?j = "\<lparr>cart_lines = [\<lparr>line_id = ''L2'', isGift = Some \<lparr>attr_value = Some ''true''\<rparr>\<rparr>],
      discountClasses = [ClassOrder]\<rparr>"
  have "cartLinesDiscountsGenerateRun ?j = \<lparr>operations = []\<rparr>"
    using cartLinesDiscountsGenerateRun_correct [of ?j] by simp
  moreover have "cartLinesDiscountsGenerateRun ?i
   = \<lparr>operations =
       [\<lparr>candidates = [\<lparr>message = ''Free gift item'', targets = [''L2''], percentage = 100\<rparr>,
                        \<lparr>message = ''Free gift item'', targets = [''L4''], percentage = 100\<rparr>],
         selectionStrategy = StrategyFirst\<rparr>]\<rparr>"
    by (simp add: cartLinesDiscountsGenerateRun_def giftFlagged_def giftCandidate_def
                  Let_def)
  ultimately show ?thesis by simp
qed
























end
